theory Spec2Isabelle
  imports Complex_Main
begin

section \<open>JavaScript values and the built-in conversions the handlers use\<close>

text \<open>
  The three adapters are TypeScript programs run by Node. Their handlers receive the
  argument bag of a request as parsed JSON and apply JavaScript's loose conversions to it
  (\<^verbatim>\<open>String(x)\<close>, \<^verbatim>\<open>Number(x)\<close>, truthiness, template literals), so the
  model carries untyped JavaScript values.

  A number is an IEEE double. The handlers never compute with numbers: they test them for
  truthiness and pass them on. A number is therefore modelled as \<open>NaN\<close>, an infinity, or
  a finite value given as a rational (\<open>-0\<close> and \<open>0\<close> are not told apart; both are falsy
  and print as \<open>0\<close>). A string is a list of characters.
\<close>

datatype jsnum = NaN | PosInfinity | NegInfinity | Fin rat

datatype jsval =
    JUndefined
  | JNull
  | JBool bool
  | JNum jsnum
  | JStr string
  | JArr "jsval list"
  | JObj "(string \<times> jsval) list"

text \<open>
  What the code takes from the platform and the model cannot compute from the value
  alone is a parameter of every handler: the decimal rendering of a number
  (\<^verbatim>\<open>Number.prototype.toString\<close>), the parsing of a string as a number, the decoding
  \<^verbatim>\<open>Buffer.from(s, 'base64').toString('utf-8')\<close>, and the messages of the
  \<^verbatim>\<open>TypeError\<close>s the handlers can run into: when \<^verbatim>\<open>undefined\<close> is destructured (the
  argument is the first property name of the pattern), when a property is read from
  \<^verbatim>\<open>null\<close> or \<^verbatim>\<open>undefined\<close> (the arguments are that value and the property name), and
  when something that is not a function is called (the argument is the expression
  called).
\<close>

record js_runtime =
  NumberToString :: "jsnum \<Rightarrow> string"
  StringToNumber :: "string \<Rightarrow> jsnum"
  base64_to_utf8 :: "string \<Rightarrow> string"
  destructure_message :: "string \<Rightarrow> string"
  read_property_message :: "jsval \<Rightarrow> string \<Rightarrow> string"
  not_a_function_message :: "string \<Rightarrow> string"

fun join_with :: "string \<Rightarrow> string list \<Rightarrow> string" where
  "join_with sep [] = []"
| "join_with sep [x] = x"
| "join_with sep (x # y # ys) = x @ sep @ join_with sep (y # ys)"

text \<open>\<^verbatim>\<open>String(v)\<close> and \<^verbatim>\<open>`${v}`\<close>: an array is its elements joined by commas, with
  \<^verbatim>\<open>null\<close> and \<^verbatim>\<open>undefined\<close> elements rendered empty; a plain object is
  \<^verbatim>\<open>[object Object]\<close>.\<close>

fun to_String :: "js_runtime \<Rightarrow> jsval \<Rightarrow> string" where
  "to_String R JUndefined = ''undefined''"
| "to_String R JNull = ''null''"
| "to_String R (JBool b) = (if b then ''true'' else ''false'')"
| "to_String R (JNum n) = NumberToString R n"
| "to_String R (JStr s) = s"
| "to_String R (JArr vs) =
     join_with '','' (map (\<lambda>v. if v = JUndefined \<or> v = JNull then [] else to_String R v) vs)"
| "to_String R (JObj ps) = ''[object Object]''"

text \<open>\<^verbatim>\<open>Number(v)\<close>: arrays and objects go through their string form.\<close>

fun to_Number :: "js_runtime \<Rightarrow> jsval \<Rightarrow> jsnum" where
  "to_Number R JUndefined = NaN"
| "to_Number R JNull = Fin 0"
| "to_Number R (JBool b) = (if b then Fin 1 else Fin 0)"
| "to_Number R (JNum n) = n"
| "to_Number R (JStr s) = StringToNumber R s"
| "to_Number R (JArr vs) = StringToNumber R (to_String R (JArr vs))"
| "to_Number R (JObj ps) = StringToNumber R (to_String R (JObj ps))"

text \<open>Truthiness, as tested by \<^verbatim>\<open>if (v)\<close>, \<^verbatim>\<open>!v\<close> and \<^verbatim>\<open>v || d\<close>.\<close>

fun truthy_num :: "jsnum \<Rightarrow> bool" where
  "truthy_num NaN = False"
| "truthy_num (Fin r) = (r \<noteq> 0)"
| "truthy_num PosInfinity = True"
| "truthy_num NegInfinity = True"

fun truthy :: "jsval \<Rightarrow> bool" where
  "truthy JUndefined = False"
| "truthy JNull = False"
| "truthy (JBool b) = b"
| "truthy (JNum n) = truthy_num n"
| "truthy (JStr s) = (s \<noteq> [])"
| "truthy (JArr vs) = True"
| "truthy (JObj ps) = True"

fun typeof :: "jsval \<Rightarrow> string" where
  "typeof JUndefined = ''undefined''"
| "typeof JNull = ''object''"
| "typeof (JBool b) = ''boolean''"
| "typeof (JNum n) = ''number''"
| "typeof (JStr s) = ''string''"
| "typeof (JArr vs) = ''object''"
| "typeof (JObj ps) = ''object''"

text \<open>Reading a property of an object parsed from JSON: \<^verbatim>\<open>undefined\<close> when the key is
  missing.\<close>

definition get_prop :: "(string \<times> jsval) list \<Rightarrow> string \<Rightarrow> jsval" where
  "get_prop ps k = (case map_of ps k of None \<Rightarrow> JUndefined | Some v \<Rightarrow> v)"

text \<open>\<^verbatim>\<open>v === undefined || v === null\<close>: the values a property cannot be read from, and
  the ones \<^verbatim>\<open>?.\<close> stops at.\<close>

definition nullish :: "jsval \<Rightarrow> bool" where
  "nullish v = (v = JUndefined \<or> v = JNull)"

text \<open>
  \<open>js_member v k\<close> is \<^verbatim>\<open>v.k\<close> for a value \<open>v\<close> that is neither \<^verbatim>\<open>null\<close> nor
  \<^verbatim>\<open>undefined\<close> and a name \<open>k\<close> other than \<^verbatim>\<open>length\<close>: the property of an object, and
  \<^verbatim>\<open>undefined\<close> on a string, a number, a boolean or an array, which have none of the
  names the handlers read. \<open>js_length v\<close> is \<^verbatim>\<open>v?.length\<close>.
\<close>

fun js_member :: "jsval \<Rightarrow> string \<Rightarrow> jsval" where
  "js_member (JObj ps) k = get_prop ps k"
| "js_member _ k = JUndefined"

fun js_length :: "jsval \<Rightarrow> jsval" where
  "js_length (JArr vs) = JNum (Fin (of_nat (length vs)))"
| "js_length (JStr s) = JNum (Fin (of_nat (length s)))"
| "js_length (JObj ps) = get_prop ps ''length''"
| "js_length _ = JUndefined"

subsection \<open>\<^verbatim>\<open>JSON.stringify(value, null, 2)\<close>\<close>

definition hex_digit :: "nat \<Rightarrow> char" where
  "hex_digit d = (if d < 10 then char_of (48 + d) else char_of (87 + d))"

definition json_escape :: "char \<Rightarrow> string" where
  "json_escape c =
     (if c = CHR 0x22 then [CHR 0x5C, CHR 0x22]
      else if c = CHR 0x5C then [CHR 0x5C, CHR 0x5C]
      else if c = CHR 0x08 then [CHR 0x5C, CHR ''b'']
      else if c = CHR 0x0C then [CHR 0x5C, CHR ''f'']
      else if c = CHR 0x0A then [CHR 0x5C, CHR ''n'']
      else if c = CHR 0x0D then [CHR 0x5C, CHR ''r'']
      else if c = CHR 0x09 then [CHR 0x5C, CHR ''t'']
      else if (of_char c :: nat) < 32
        then [CHR 0x5C, CHR ''u'', CHR ''0'', CHR ''0'',
              hex_digit (of_char c div 16), hex_digit (of_char c mod 16)]
      else [c])"

definition json_quote :: "string \<Rightarrow> string" where
  "json_quote s = CHR 0x22 # concat (map json_escape s) @ [CHR 0x22]"

definition json_indent :: "nat \<Rightarrow> string" where
  "json_indent k = CHR 0x0A # replicate (2 * k) CHR '' ''"

definition json_wrap :: "char \<Rightarrow> char \<Rightarrow> nat \<Rightarrow> string list \<Rightarrow> string" where
  "json_wrap l r k parts =
     (if parts = [] then [l, r]
      else l # json_indent (Suc k) @ join_with (CHR '','' # json_indent (Suc k)) parts
             @ json_indent k @ [r])"

text \<open>
  \<open>json_ser R k v\<close> is the serialisation of \<open>v\<close> at nesting depth \<open>k\<close> with a gap of two
  spaces. An \<^verbatim>\<open>undefined\<close> element of an array prints as \<^verbatim>\<open>null\<close>; a property whose
  value is \<^verbatim>\<open>undefined\<close> is left out of its object; a number that is not finite prints as
  \<^verbatim>\<open>null\<close>. The handlers only ever serialise an array or an object.
\<close>

fun json_ser :: "js_runtime \<Rightarrow> nat \<Rightarrow> jsval \<Rightarrow> string" where
  "json_ser R k JUndefined = ''null''"
| "json_ser R k JNull = ''null''"
| "json_ser R k (JBool b) = (if b then ''true'' else ''false'')"
| "json_ser R k (JNum n) = (case n of Fin r \<Rightarrow> NumberToString R (Fin r) | _ \<Rightarrow> ''null'')"
| "json_ser R k (JStr s) = json_quote s"
| "json_ser R k (JArr vs) = json_wrap CHR ''['' CHR '']'' k (map (json_ser R (Suc k)) vs)"
| "json_ser R k (JObj ps) =
     json_wrap CHR ''{'' CHR ''}'' k
       (map (\<lambda>p. json_quote (fst p) @ '': '' @ json_ser R (Suc k) (snd p))
            (filter (\<lambda>p. snd p \<noteq> JUndefined) ps))"

definition JSON_stringify :: "js_runtime \<Rightarrow> jsval \<Rightarrow> string" where
  "JSON_stringify R v = json_ser R 0 v"


section \<open>The protocol types shared by the adapters\<close>

text \<open>
  \<open>McpError\<close> is the SDK's tagged error: \<open>code\<close> is the \<^verbatim>\<open>ErrorCode\<close> and \<open>message\<close> the
  string given to the constructor. A request carries the tool name and the optional
  argument bag (\<^verbatim>\<open>request.params.arguments\<close> is a JSON object or absent). A result is
  the \<^verbatim>\<open>content\<close> array of the returned object.
\<close>

datatype ErrorCode = MethodNotFound | InvalidParams | InternalError

record McpError =
  code :: ErrorCode
  message :: string

record content_item =
  type :: string
  "text" :: string

record CallToolResult =
  content :: "content_item list"

record request =
  name :: string
  arguments :: "(string \<times> jsval) list option"

text \<open>\<^verbatim>\<open>request.params.arguments?.key\<close>\<close>

definition optional_arg :: "request \<Rightarrow> string \<Rightarrow> jsval" where
  "optional_arg req k = (case arguments req of None \<Rightarrow> JUndefined | Some ps \<Rightarrow> get_prop ps k)"

text \<open>
  What a call of a client library can throw: an \<^verbatim>\<open>Error\<close> with its message, an axios
  error (an \<^verbatim>\<open>Error\<close> too) with the status of its response when it has one, or a value
  that is not an \<^verbatim>\<open>Error\<close>.
\<close>

datatype thrown_value =
    JsError string
  | AxiosError "nat option" string
  | NonError

text \<open>\<^verbatim>\<open>error instanceof Error ? error.message : 'Unknown error'\<close>\<close>

fun message_or_unknown :: "thrown_value \<Rightarrow> string" where
  "message_or_unknown (JsError m) = m"
| "message_or_unknown (AxiosError st m) = m"
| "message_or_unknown NonError = ''Unknown error''"

text \<open>What is raised inside a \<^verbatim>\<open>try\<close> block: an \<open>McpError\<close> of the handler itself, or
  a value thrown by a library call.\<close>

datatype exn = Mcp McpError | Thrown thrown_value

text \<open>The schema of one property of a tool's \<^verbatim>\<open>inputSchema\<close>, and a tool descriptor.\<close>

record property_schema =
  ptype :: string
  pdescription :: string
  minimum :: "jsnum option"
  maximum :: "jsnum option"
  pdefault :: "jsval option"

record tool =
  tool_name :: string
  tool_description :: string
  properties :: "(string \<times> property_schema) list"
  required :: "string list"

definition plain_property :: "string \<Rightarrow> string \<Rightarrow> property_schema" where
  "plain_property t d = \<lparr>ptype = t, pdescription = d, minimum = None, maximum = None, pdefault = None\<rparr>"

section \<open>The search adapter\<close>

definition BRAVE_SEARCH_URL :: string where
  "BRAVE_SEARCH_URL = ''https://api.search.brave.com/res/v1/web/search''"

text \<open>
  The interfaces \<^verbatim>\<open>BraveSearchResult\<close> and \<^verbatim>\<open>BraveSearchResponse\<close> of the source are
  compile-time annotations of \<^verbatim>\<open>axios.get\<close>: nothing checks the body of a reply against
  them. The body is therefore the JSON value as it came.
\<close>

text \<open>The one outbound call: \<^verbatim>\<open>axios.get(url, {headers, params})\<close>.\<close>

record axios_get =
  get_url :: string
  X_Subscription_Token :: string
  q :: string
  count :: jsnum
  text_decorations :: bool
  text_format :: string

definition search_tools :: "tool list" where
  "search_tools =
     [\<lparr>tool_name = ''search'',
       tool_description = ''Search the internet using Brave Search'',
       properties =
         [(''query'', plain_property ''string'' ''The search query''),
          (''count'', \<lparr>ptype = ''number'',
                       pdescription = ''Number of results to return (1-20)'',
                       minimum = Some (Fin 1), maximum = Some (Fin 20),
                       pdefault = Some (JNum (Fin 5))\<rparr>)],
       required = [''query'']\<rparr>]"

text \<open>\<^verbatim>\<open>Number(x) || 5\<close>\<close>

definition num_or :: "jsnum \<Rightarrow> jsnum \<Rightarrow> jsnum" where
  "num_or n d = (if truthy_num n then n else d)"

text \<open>\<^verbatim>\<open>data.web?.results\<close>, for a body \<open>data\<close> that a property can be read from.\<close>

definition web_results :: "jsval \<Rightarrow> jsval" where
  "web_results data =
     (if nullish (js_member data ''web'') then JUndefined
      else js_member (js_member data ''web'') ''results'')"

text \<open>The object built for one result. A member the result does not have is
  \<^verbatim>\<open>undefined\<close> here and left out by the serialisation.\<close>

definition search_result_json :: "jsval \<Rightarrow> jsval" where
  "search_result_json r =
     JObj [(''title'', js_member r ''title''), (''url'', js_member r ''url''),
           (''description'', js_member r ''description'')]"

text \<open>\<^verbatim>\<open>results.map(result => ({...}))\<close> on an array: the elements are visited in order,
  and reading \<^verbatim>\<open>result.title\<close> throws at the first one that is \<^verbatim>\<open>null\<close>.\<close>

fun search_results_map :: "js_runtime \<Rightarrow> jsval list \<Rightarrow> thrown_value + jsval list" where
  "search_results_map R [] = Inr []"
| "search_results_map R (r # rs) =
     (if nullish r then Inl (JsError (read_property_message R r ''title''))
      else (case search_results_map R rs of
              Inl e \<Rightarrow> Inl e
            | Inr objs \<Rightarrow> Inr (search_result_json r # objs)))"

text \<open>
  What the handler does with the body of the reply, inside the \<^verbatim>\<open>try\<close> block. Reading
  \<^verbatim>\<open>data.web\<close> throws when the body is \<^verbatim>\<open>null\<close>. Past the test of
  \<^verbatim>\<open>!data.web?.results?.length\<close>, \<^verbatim>\<open>results\<close> has a truthy length; when it is not an
  array (a string, or an object with a \<^verbatim>\<open>length\<close> member) it has no \<^verbatim>\<open>map\<close> function
  and the call throws.
\<close>

definition search_reshape :: "js_runtime \<Rightarrow> jsval \<Rightarrow> thrown_value + CallToolResult" where
  "search_reshape R data =
     (if nullish data then Inl (JsError (read_property_message R data ''web''))
      else if \<not> truthy (js_length (web_results data)) then
        Inr \<lparr>content = [\<lparr>type = ''text'', text = ''No results found.''\<rparr>]\<rparr>
      else
        (case web_results data of
           JArr rs \<Rightarrow>
             (case search_results_map R rs of
                Inl e \<Rightarrow> Inl e
              | Inr results \<Rightarrow>
                  Inr \<lparr>content = [\<lparr>type = ''text'',
                                   text = JSON_stringify R (JArr results)\<rparr>]\<rparr>)
         | _ \<Rightarrow>
             Inl (JsError (not_a_function_message R ''response.data.web.results.map''))))"

text \<open>\<^verbatim>\<open>axios.isAxiosError(error) && error.response?.status === 401\<close>\<close>

fun unauthorized :: "thrown_value \<Rightarrow> bool" where
  "unauthorized (AxiosError (Some st) m) = (st = 401)"
| "unauthorized _ = False"

definition search_catch :: "thrown_value \<Rightarrow> McpError" where
  "search_catch e =
     (if unauthorized e then
        \<lparr>code = InternalError,
         message = ''Search failed: Please visit https://api.search.brave.com to get started with Brave Search API''\<rparr>
      else \<lparr>code = InternalError, message = ''Search failed: '' @ message_or_unknown e\<rparr>)"

text \<open>The body of the \<^verbatim>\<open>try\<close> block: the outbound call, then the reshaping of its
  answer. \<open>http_get\<close> is the backing service seen through axios: the body of the reply, or
  what the call throws.\<close>

definition search_try ::
  "js_runtime \<Rightarrow> (axios_get \<Rightarrow> thrown_value + jsval) \<Rightarrow> axios_get
     \<Rightarrow> thrown_value + CallToolResult" where
  "search_try R http_get call =
     (case http_get call of Inl e \<Rightarrow> Inl e | Inr data \<Rightarrow> search_reshape R data)"

text \<open>
  The handler of \<^verbatim>\<open>CallToolRequestSchema\<close>. It returns the outbound calls it issued, in
  order, and either the error it raised or its result.
\<close>

definition search_CallTool ::
  "js_runtime \<Rightarrow> string \<Rightarrow> (axios_get \<Rightarrow> thrown_value + jsval) \<Rightarrow> request
     \<Rightarrow> axios_get list \<times> (McpError + CallToolResult)" where
  "search_CallTool R API_KEY http_get req =
     (if name req \<noteq> ''search'' then
        ([], Inl \<lparr>code = MethodNotFound, message = ''Unknown tool''\<rparr>)
      else
        let query = to_String R (optional_arg req ''query'');
            cnt = num_or (to_Number R (optional_arg req ''count'')) (Fin 5)
        in if query = [] then
             ([], Inl \<lparr>code = InvalidParams, message = ''Search query is required''\<rparr>)
           else
             let call = \<lparr>get_url = BRAVE_SEARCH_URL, X_Subscription_Token = API_KEY,
                         q = query, count = cnt,
                         text_decorations = False, text_format = ''plain''\<rparr>
             in (case search_try R http_get call of
                   Inl e \<Rightarrow> ([call], Inl (search_catch e))
                 | Inr r \<Rightarrow> ([call], Inr r)))"


section \<open>The GitHub adapter\<close>

text \<open>
  What \<^verbatim>\<open>octokit.repos.getContent\<close> answers, as far as the handlers look at it: an array
  of directory entries, or a single object, of which only the \<^verbatim>\<open>content\<close> property is
  read (\<open>None\<close> when the object has no such property).
\<close>

record dir_entry =
  entry_name :: string
  entry_type :: string
  entry_path :: string
  entry_size :: jsnum

datatype content_data = Listing "dir_entry list" | Payload "jsval option"

record code_search_item =
  repository_full_name :: string
  path :: string
  html_url :: string

text \<open>The two client methods the adapter calls, and the log entry of a call. The
  arguments are type-cast in the source, not checked, so a call carries whatever the
  argument bag held.\<close>

record octokit =
  repos_getContent :: "jsval \<Rightarrow> jsval \<Rightarrow> jsval \<Rightarrow> jsval \<Rightarrow> thrown_value + content_data"
  search_code :: "jsval \<Rightarrow> nat \<Rightarrow> thrown_value + code_search_item list"

datatype octokit_call =
    GetContent jsval jsval jsval jsval
  | SearchCode jsval nat

definition github_tools :: "tool list" where
  "github_tools =
     [\<lparr>tool_name = ''read_file'',
       tool_description = ''Read a file from a GitHub repository'',
       properties =
         [(''owner'', plain_property ''string'' ''Repository owner''),
          (''repo'', plain_property ''string'' ''Repository name''),
          (''path'', plain_property ''string'' ''File path in the repository''),
          (''ref'', \<lparr>ptype = ''string'',
                     pdescription = ''Git reference (branch, tag, or commit SHA)'',
                     minimum = None, maximum = None, pdefault = Some (JStr ''main'')\<rparr>)],
       required = [''owner'', ''repo'', ''path'']\<rparr>,
      \<lparr>tool_name = ''search_code'',
       tool_description = ''Search for code across GitHub repositories'',
       properties =
         [(''query'', plain_property ''string'' ''Search query''),
          (''language'', plain_property ''string'' ''Programming language to filter by''),
          (''owner'', plain_property ''string'' ''Repository owner to limit search to''),
          (''repo'', plain_property ''string'' ''Repository name to limit search to'')],
       required = [''query'']\<rparr>,
      \<lparr>tool_name = ''list_repository_content'',
       tool_description = ''List contents of a repository directory'',
       properties =
         [(''owner'', plain_property ''string'' ''Repository owner''),
          (''repo'', plain_property ''string'' ''Repository name''),
          (''path'', \<lparr>ptype = ''string'',
                      pdescription = ''Directory path in the repository'',
                      minimum = None, maximum = None, pdefault = Some (JStr [])\<rparr>),
          (''ref'', \<lparr>ptype = ''string'',
                     pdescription = ''Git reference (branch, tag, or commit SHA)'',
                     minimum = None, maximum = None, pdefault = Some (JStr ''main'')\<rparr>)],
       required = [''owner'', ''repo'']\<rparr>]"

text \<open>A destructuring default, \<^verbatim>\<open>{ ref = 'main' }\<close>: it applies to \<^verbatim>\<open>undefined\<close>
  only.\<close>

definition with_default :: "jsval \<Rightarrow> jsval \<Rightarrow> jsval" where
  "with_default v d = (if v = JUndefined then d else v)"

text \<open>\<^verbatim>\<open>'content' in data && typeof data.content === 'string'\<close>\<close>

fun string_content :: "content_data \<Rightarrow> string option" where
  "string_content (Payload (Some (JStr c))) = Some c"
| "string_content _ = None"

definition read_file ::
  "js_runtime \<Rightarrow> octokit \<Rightarrow> (string \<times> jsval) list option
     \<Rightarrow> octokit_call list \<times> (exn + CallToolResult)" where
  "read_file R api args =
     (case args of
        None \<Rightarrow> ([], Inl (Thrown (JsError (destructure_message R ''owner''))))
      | Some ps \<Rightarrow>
          let owner = get_prop ps ''owner''; repo = get_prop ps ''repo'';
              path = get_prop ps ''path'';
              ref = with_default (get_prop ps ''ref'') (JStr ''main'')
          in (case repos_getContent api owner repo path ref of
                Inl e \<Rightarrow> ([GetContent owner repo path ref], Inl (Thrown e))
              | Inr d \<Rightarrow>
                  (case string_content d of
                     Some c \<Rightarrow>
                       ([GetContent owner repo path ref],
                        Inr \<lparr>content = [\<lparr>type = ''text'', text = base64_to_utf8 R c\<rparr>]\<rparr>)
                   | None \<Rightarrow>
                       ([GetContent owner repo path ref],
                        Inl (Mcp \<lparr>code = InternalError,
                                  message = ''Invalid response format from GitHub API''\<rparr>)))))"

text \<open>\<^verbatim>\<open>q += ` language:${language}`\<close> and the two other qualifiers. \<open>q\<close> starts as the
  \<^verbatim>\<open>query\<close> argument as it came; appending makes it a string.\<close>

definition search_code_q :: "js_runtime \<Rightarrow> jsval \<Rightarrow> jsval \<Rightarrow> jsval \<Rightarrow> jsval \<Rightarrow> jsval" where
  "search_code_q R query language owner repo =
     (let q0 = query;
          q1 = (if truthy language
                then JStr (to_String R q0 @ '' language:'' @ to_String R language) else q0)
      in if truthy owner \<and> truthy repo
           then JStr (to_String R q1 @ '' repo:'' @ to_String R owner @ ''/'' @ to_String R repo)
         else if truthy owner
           then JStr (to_String R q1 @ '' user:'' @ to_String R owner)
         else q1)"

definition code_item_json :: "code_search_item \<Rightarrow> jsval" where
  "code_item_json item =
     JObj [(''repository'', JStr (repository_full_name item)), (''path'', JStr (path item)),
           (''url'', JStr (html_url item))]"

definition search_code_tool ::
  "js_runtime \<Rightarrow> octokit \<Rightarrow> (string \<times> jsval) list option
     \<Rightarrow> octokit_call list \<times> (exn + CallToolResult)" where
  "search_code_tool R api args =
     (case args of
        None \<Rightarrow> ([], Inl (Thrown (JsError (destructure_message R ''query''))))
      | Some ps \<Rightarrow>
          let qq = search_code_q R (get_prop ps ''query'') (get_prop ps ''language'')
                     (get_prop ps ''owner'') (get_prop ps ''repo'')
          in (case search_code api qq 10 of
                Inl e \<Rightarrow> ([SearchCode qq 10], Inl (Thrown e))
              | Inr items \<Rightarrow>
                  ([SearchCode qq 10],
                   Inr \<lparr>content = [\<lparr>type = ''text'',
                          text = JSON_stringify R (JArr (map code_item_json items))\<rparr>]\<rparr>)))"

definition dir_entry_json :: "dir_entry \<Rightarrow> jsval" where
  "dir_entry_json item =
     JObj [(''name'', JStr (entry_name item)), (''type'', JStr (entry_type item)),
           (''path'', JStr (entry_path item)), (''size'', JNum (entry_size item))]"

definition list_repository_content ::
  "js_runtime \<Rightarrow> octokit \<Rightarrow> (string \<times> jsval) list option
     \<Rightarrow> octokit_call list \<times> (exn + CallToolResult)" where
  "list_repository_content R api args =
     (case args of
        None \<Rightarrow> ([], Inl (Thrown (JsError (destructure_message R ''owner''))))
      | Some ps \<Rightarrow>
          let owner = get_prop ps ''owner''; repo = get_prop ps ''repo'';
              path = with_default (get_prop ps ''path'') (JStr []);
              ref = with_default (get_prop ps ''ref'') (JStr ''main'')
          in (case repos_getContent api owner repo path ref of
                Inl e \<Rightarrow> ([GetContent owner repo path ref], Inl (Thrown e))
              | Inr (Listing entries) \<Rightarrow>
                  ([GetContent owner repo path ref],
                   Inr \<lparr>content = [\<lparr>type = ''text'',
                          text = JSON_stringify R (JArr (map dir_entry_json entries))\<rparr>]\<rparr>)
              | Inr (Payload c) \<Rightarrow>
                  ([GetContent owner repo path ref],
                   Inl (Mcp \<lparr>code = InternalError, message = ''Expected directory listing''\<rparr>))))"

text \<open>The \<^verbatim>\<open>catch\<close> block: an \<open>McpError\<close> is thrown again as it is, anything else is
  wrapped.\<close>

fun github_catch :: "exn \<Rightarrow> McpError" where
  "github_catch (Mcp e) = e"
| "github_catch (Thrown t) =
     \<lparr>code = InternalError, message = ''GitHub API error: '' @ message_or_unknown t\<rparr>"

definition github_try :: "js_runtime \<Rightarrow> octokit \<Rightarrow> request
     \<Rightarrow> octokit_call list \<times> (exn + CallToolResult)" where
  "github_try R api req =
     (if name req = ''read_file'' then read_file R api (arguments req)
      else if name req = ''search_code'' then search_code_tool R api (arguments req)
      else if name req = ''list_repository_content''
        then list_repository_content R api (arguments req)
      else ([], Inl (Mcp \<lparr>code = MethodNotFound, message = ''Unknown tool: '' @ name req\<rparr>)))"

definition github_CallTool :: "js_runtime \<Rightarrow> octokit \<Rightarrow> request
     \<Rightarrow> octokit_call list \<times> (McpError + CallToolResult)" where
  "github_CallTool R api req =
     (case github_try R api req of
        (calls, Inl e) \<Rightarrow> (calls, Inl (github_catch e))
      | (calls, Inr r) \<Rightarrow> (calls, Inr r))"


section \<open>The GitLab adapter\<close>

text \<open>The merge request and a diff as the client returns them; the handler copies the
  members below without looking at them.\<close>

record merge_request =
  mr_id :: jsval
  mr_iid :: jsval
  mr_title :: jsval
  mr_description :: jsval
  mr_state :: jsval
  mr_source_branch :: jsval
  mr_target_branch :: jsval

record mr_diff =
  old_path :: jsval
  new_path :: jsval
  diff :: jsval

record gitlab_api =
  MergeRequests_show :: "jsval \<Rightarrow> jsval \<Rightarrow> thrown_value + merge_request"
  MergeRequests_allDiffs :: "jsval \<Rightarrow> jsval \<Rightarrow> thrown_value + mr_diff list"

datatype gitlab_call = Show jsval jsval | AllDiffs jsval jsval

definition gitlab_tools :: "tool list" where
  "gitlab_tools =
     [\<lparr>tool_name = ''get_merge_request_content'',
       tool_description = ''Get the content of a merge request including its changes'',
       properties =
         [(''project_id'',
             plain_property ''string'' ''The ID or URL-encoded path of the project''),
          (''merge_request_iid'',
             plain_property ''number'' ''The internal ID of the merge request'')],
       required = [''project_id'', ''merge_request_iid'']\<rparr>]"

text \<open>\<open>validateGetMergeRequestContentArgs\<close>: \<open>None\<close> when the assertion passes, the
  error it throws otherwise.\<close>

definition validateGetMergeRequestContentArgs :: "jsval \<Rightarrow> McpError option" where
  "validateGetMergeRequestContentArgs args =
     (if typeof args \<noteq> ''object'' \<or> args = JNull then
        Some \<lparr>code = InvalidParams, message = ''Invalid arguments''\<rparr>
      else if typeof (js_member args ''project_id'') \<noteq> ''string'' then
        Some \<lparr>code = InvalidParams, message = ''project_id must be a string''\<rparr>
      else if typeof (js_member args ''merge_request_iid'') \<noteq> ''number'' then
        Some \<lparr>code = InvalidParams, message = ''merge_request_iid must be a number''\<rparr>
      else None)"

definition mr_diff_json :: "mr_diff \<Rightarrow> jsval" where
  "mr_diff_json d =
     JObj [(''old_path'', old_path d), (''new_path'', new_path d), (''diff'', diff d)]"

definition mr_content_json :: "merge_request \<Rightarrow> mr_diff list \<Rightarrow> jsval" where
  "mr_content_json mr ds =
     JObj [(''id'', mr_id mr), (''iid'', mr_iid mr), (''title'', mr_title mr),
           (''description'', mr_description mr), (''state'', mr_state mr),
           (''source_branch'', mr_source_branch mr), (''target_branch'', mr_target_branch mr),
           (''changes'', JArr (map mr_diff_json ds))]"

definition get_merge_request_content ::
  "js_runtime \<Rightarrow> gitlab_api \<Rightarrow> (string \<times> jsval) list
     \<Rightarrow> gitlab_call list \<times> (exn + CallToolResult)" where
  "get_merge_request_content R api ps =
     (case validateGetMergeRequestContentArgs (JObj ps) of
        Some e \<Rightarrow> ([], Inl (Mcp e))
      | None \<Rightarrow>
          let project_id = get_prop ps ''project_id'';
              merge_request_iid = get_prop ps ''merge_request_iid''
          in (case MergeRequests_show api project_id merge_request_iid of
                Inl e \<Rightarrow> ([Show project_id merge_request_iid], Inl (Thrown e))
              | Inr mr \<Rightarrow>
                  (case MergeRequests_allDiffs api project_id merge_request_iid of
                     Inl e \<Rightarrow>
                       ([Show project_id merge_request_iid,
                         AllDiffs project_id merge_request_iid], Inl (Thrown e))
                   | Inr ds \<Rightarrow>
                       ([Show project_id merge_request_iid,
                         AllDiffs project_id merge_request_iid],
                        Inr \<lparr>content = [\<lparr>type = ''text'',
                               text = JSON_stringify R (mr_content_json mr ds)\<rparr>]\<rparr>))))"

fun gitlab_catch :: "exn \<Rightarrow> McpError" where
  "gitlab_catch (Mcp e) = e"
| "gitlab_catch (Thrown t) =
     \<lparr>code = InternalError, message = ''GitLab API error: '' @ message_or_unknown t\<rparr>"

definition gitlab_try :: "js_runtime \<Rightarrow> gitlab_api \<Rightarrow> string \<Rightarrow> (string \<times> jsval) list
     \<Rightarrow> gitlab_call list \<times> (exn + CallToolResult)" where
  "gitlab_try R api nm ps =
     (if nm = ''get_merge_request_content'' then get_merge_request_content R api ps
      else ([], Inl (Mcp \<lparr>code = MethodNotFound, message = ''Unknown tool: '' @ nm\<rparr>)))"

definition gitlab_CallTool :: "js_runtime \<Rightarrow> gitlab_api \<Rightarrow> request
     \<Rightarrow> gitlab_call list \<times> (McpError + CallToolResult)" where
  "gitlab_CallTool R api req =
     (case arguments req of
        None \<Rightarrow> ([], Inl \<lparr>code = InvalidParams, message = ''No arguments provided''\<rparr>)
      | Some ps \<Rightarrow>
          (case gitlab_try R api (name req) ps of
             (calls, Inl e) \<Rightarrow> (calls, Inl (gitlab_catch e))
           | (calls, Inr r) \<Rightarrow> (calls, Inr r)))"

section \<open>Process start\<close>

text \<open>
  What each program does between its first statement and \<^verbatim>\<open>server.connect(transport)\<close>,
  as a function of the process environment: \<open>Crashed m\<close> when a top-level statement
  throws before the transport is connected, \<open>Connected c\<close> when the transport is
  connected, with the configuration \<open>c\<close> the handlers then use. A variable that is set to
  the empty string is falsy, as an unset one is.
\<close>

datatype 'c startup = Crashed string | Connected 'c

definition env_falsy :: "string option \<Rightarrow> bool" where
  "env_falsy v = (case v of None \<Rightarrow> True | Some s \<Rightarrow> s = [])"

definition search_startup :: "(string \<Rightarrow> string option) \<Rightarrow> string startup" where
  "search_startup env =
     (if env_falsy (env ''BRAVE_API_KEY'')
      then Crashed ''BRAVE_API_KEY environment variable is required''
      else Connected (the (env ''BRAVE_API_KEY'')))"

definition gitlab_startup :: "(string \<Rightarrow> string option) \<Rightarrow> (string \<times> string) startup" where
  "gitlab_startup env =
     (let GITLAB_TOKEN = env ''GITLAB_TOKEN'';
          GITLAB_URL = (if env_falsy (env ''GITLAB_URL'') then ''https://gitlab.com''
                        else the (env ''GITLAB_URL''))
      in if env_falsy GITLAB_TOKEN
         then Crashed ''GITLAB_TOKEN environment variable is required''
         else Connected (the GITLAB_TOKEN, GITLAB_URL))"

text \<open>The GitHub program builds its client with no credential
  (\<^verbatim>\<open>new Octokit()\<close>) and reads no variable.\<close>

definition github_startup :: "(string \<Rightarrow> string option) \<Rightarrow> unit startup" where
  "github_startup env = Connected ()"


section \<open>Fixed inputs for the closed examples\<close>

text \<open>
  The theorems below hold for every runtime and every backing service. The examples at
  concrete inputs need one of each. \<open>example_runtime\<close> prints an integer in decimal,
  decodes the standard base64 alphabet up to the padding (ASCII text comes out as it is),
  and words the three type errors as V8 does; no example passes a string where a number
  is converted.
\<close>

fun decimal :: "nat \<Rightarrow> string" where
  "decimal n =
     (if n < 10 then [char_of (48 + n)] else decimal (n div 10) @ [char_of (48 + n mod 10)])"

declare decimal.simps [simp del]

definition b64_value :: "char \<Rightarrow> nat option" where
  "b64_value c =
     (let n = (of_char c :: nat) in
      if 65 \<le> n \<and> n \<le> 90 then Some (n - 65)
      else if 97 \<le> n \<and> n \<le> 122 then Some (n - 71)
      else if 48 \<le> n \<and> n \<le> 57 then Some (n + 4)
      else if c = CHR ''+'' \<or> c = CHR ''-'' then Some 62
      else if c = CHR ''/'' \<or> c = CHR ''_'' then Some 63
      else None)"

fun b64_bytes :: "nat list \<Rightarrow> nat list" where
  "b64_bytes (a # b # c # d # rest) =
     (a * 4 + b div 16) # ((b mod 16) * 16 + c div 4) # ((c mod 4) * 64 + d) # b64_bytes rest"
| "b64_bytes [a, b, c] = [a * 4 + b div 16, (b mod 16) * 16 + c div 4]"
| "b64_bytes [a, b] = [a * 4 + b div 16]"
| "b64_bytes _ = []"

definition b64_decode :: "string \<Rightarrow> string" where
  "b64_decode s =
     map char_of (b64_bytes (List.map_filter b64_value (takeWhile (\<lambda>c. c \<noteq> CHR ''='') s)))"

definition example_runtime :: js_runtime where
  "example_runtime =
     \<lparr>NumberToString = (\<lambda>n. case n of
          NaN \<Rightarrow> ''NaN'' | PosInfinity \<Rightarrow> ''Infinity'' | NegInfinity \<Rightarrow> ''-Infinity''
        | Fin r \<Rightarrow> (if r < 0 then ''-'' else []) @ decimal (nat \<lfloor>\<bar>r\<bar>\<rfloor>)),
      StringToNumber = (\<lambda>s. NaN),
      base64_to_utf8 = b64_decode,
      destructure_message = (\<lambda>p. ''Cannot destructure property '' @ p),
      read_property_message = (\<lambda>v p.
        ''Cannot read properties of '' @ (if v = JNull then ''null'' else ''undefined'')
          @ '' (reading '' @ [CHR 0x27] @ p @ [CHR 0x27] @ '')''),
      not_a_function_message = (\<lambda>f. f @ '' is not a function'')\<rparr>"


definition brave_two_results :: "axios_get \<Rightarrow> thrown_value + jsval" where
  "brave_two_results c =
     Inr (JObj [(''type'', JStr ''search''),
       (''web'', JObj [(''results'', JArr
          [JObj [(''title'', JStr ''Isabelle''), (''url'', JStr ''https://isabelle.in.tum.de''),
                 (''description'', JStr ''A proof assistant''), (''language'', JStr ''en'')],
           JObj [(''title'', JStr ''HOL''), (''url'', JStr ''https://hol.example''),
                 (''description'', JStr ''Higher-order logic'')]])])])"

definition brave_no_results :: "axios_get \<Rightarrow> thrown_value + jsval" where
  "brave_no_results c = Inr (JObj [(''web'', JObj [(''results'', JArr [])])])"

definition brave_no_web :: "axios_get \<Rightarrow> thrown_value + jsval" where
  "brave_no_web c = Inr (JObj [(''type'', JStr ''search'')])"


definition octokit_not_found :: octokit where
  "octokit_not_found =
     \<lparr>repos_getContent = (\<lambda>owner repo path ref. Inl (JsError ''Not Found'')),
      search_code = (\<lambda>q per_page. Inl (JsError ''Not Found''))\<rparr>"

definition octokit_file :: octokit where
  "octokit_file =
     \<lparr>repos_getContent = (\<lambda>owner repo path ref. Inr (Payload (Some (JStr ''aGVsbG8='')))),
      search_code = (\<lambda>q per_page.
        Inr [\<lparr>repository_full_name = ''isabelle-prover/mirror-isabelle'',
              path = ''src/HOL/List.thy'',
              html_url = ''https://github.com/isabelle-prover/mirror-isabelle''\<rparr>])\<rparr>"

definition octokit_directory :: octokit where
  "octokit_directory =
     \<lparr>repos_getContent = (\<lambda>owner repo path ref.
        Inr (Listing [\<lparr>entry_name = ''README.md'', entry_type = ''file'',
                       entry_path = ''README.md'', entry_size = Fin 120\<rparr>])),
      search_code = (\<lambda>q per_page. Inr [])\<rparr>"

definition gitlab_one_change :: gitlab_api where
  "gitlab_one_change =
     \<lparr>MergeRequests_show = (\<lambda>project_id iid.
        Inr \<lparr>mr_id = JNum (Fin 9001), mr_iid = iid, mr_title = JStr ''Fix typo'',
             mr_description = JNull, mr_state = JStr ''opened'',
             mr_source_branch = JStr ''typo'', mr_target_branch = JStr ''main''\<rparr>),
      MergeRequests_allDiffs = (\<lambda>project_id iid.
        Inr [\<lparr>old_path = JStr ''README.md'', new_path = JStr ''README.md'',
              diff = JStr ''@@ -1 +1 @@''\<rparr>])\<rparr>"



definition env_with_keys :: "string \<Rightarrow> string option" where
  "env_with_keys = [''BRAVE_API_KEY'' \<mapsto> ''bsa-key'', ''GITLAB_TOKEN'' \<mapsto> ''glpat-token'']"

definition env_empty :: "string \<Rightarrow> string option" where
  "env_empty = Map.empty"

section \<open>Auxiliary facts\<close>

lemma fst_case_sum:
  "fst (case x of Inl e \<Rightarrow> (cs, f e) | Inr r \<Rightarrow> (cs, g r)) = cs"
  by (cases x) simp_all

section \<open>Unknown tool names\<close>

text \<open>
  Claim C1, as amended. A request whose tool name is not in the adapter's registry never
  reaches the backing service. The GitHub adapter fails with \<open>MethodNotFound\<close> and the
  message \<^verbatim>\<open>Unknown tool: <name>\<close>, with or without an argument bag. The GitLab adapter
  does the same when the request has an argument bag; without one it fails earlier, with
  \<open>InvalidParams\<close> and \<^verbatim>\<open>No arguments provided\<close>, because it tests the bag before the
  name. The search adapter fails with \<open>MethodNotFound\<close> and the fixed message
  \<^verbatim>\<open>Unknown tool\<close>, which does not name the tool.
\<close>

theorem unknown_tool_dispatch:
  "(name req \<notin> set (map tool_name github_tools) \<longrightarrow>
      github_CallTool R gh req =
        ([], Inl \<lparr>code = MethodNotFound, message = ''Unknown tool: '' @ name req\<rparr>))
 \<and> (name req \<notin> set (map tool_name gitlab_tools) \<longrightarrow>
      gitlab_CallTool R gl req =
        ([], Inl (case arguments req of
                    None \<Rightarrow> \<lparr>code = InvalidParams, message = ''No arguments provided''\<rparr>
                  | Some ps \<Rightarrow> \<lparr>code = MethodNotFound,
                                message = ''Unknown tool: '' @ name req\<rparr>)))
 \<and> (name req \<notin> set (map tool_name search_tools) \<longrightarrow>
      search_CallTool R key http req =
        ([], Inl \<lparr>code = MethodNotFound, message = ''Unknown tool''\<rparr>))"
  by (simp add: github_tools_def gitlab_tools_def search_tools_def github_CallTool_def
      github_try_def gitlab_CallTool_def gitlab_try_def search_CallTool_def
      split: option.split)

theorem unknown_tool_dispatch_witness:
  "''delete_project'' \<notin> set (map tool_name github_tools) \<and>
   ''delete_project'' \<notin> set (map tool_name gitlab_tools) \<and>
   ''delete_project'' \<notin> set (map tool_name search_tools) \<and>
   github_CallTool example_runtime octokit_file
       \<lparr>name = ''delete_project'', arguments = None\<rparr>
     = ([], Inl \<lparr>code = MethodNotFound, message = ''Unknown tool: delete_project''\<rparr>) \<and>
   gitlab_CallTool example_runtime gitlab_one_change
       \<lparr>name = ''delete_project'', arguments = Some []\<rparr>
     = ([], Inl \<lparr>code = MethodNotFound, message = ''Unknown tool: delete_project''\<rparr>) \<and>
   search_CallTool example_runtime ''key'' brave_two_results
       \<lparr>name = ''delete_project'', arguments = None\<rparr>
     = ([], Inl \<lparr>code = MethodNotFound, message = ''Unknown tool''\<rparr>)"
  using
    unknown_tool_dispatch [of "\<lparr>name = ''delete_project'', arguments = None\<rparr>"
      example_runtime octokit_file gitlab_one_change "''key''" brave_two_results]
    unknown_tool_dispatch [of "\<lparr>name = ''delete_project'', arguments = Some []\<rparr>"
      example_runtime octokit_file gitlab_one_change "''key''" brave_two_results]
  by (simp add: github_tools_def gitlab_tools_def search_tools_def)

text \<open>The claim as first stated fails on the GitLab adapter: an unknown tool name with no
  argument bag is answered with \<open>InvalidParams\<close>, not \<open>MethodNotFound\<close>.\<close>

theorem unknown_tool_gitlab_no_arguments:
  "''delete_project'' \<notin> set (map tool_name gitlab_tools) \<and>
   gitlab_CallTool example_runtime gitlab_one_change
       \<lparr>name = ''delete_project'', arguments = None\<rparr>
     = ([], Inl \<lparr>code = InvalidParams, message = ''No arguments provided''\<rparr>)"
  by (simp add: gitlab_CallTool_def gitlab_tools_def)


section \<open>Missing required arguments\<close>

lemma read_file_error:
  "read_file R gh a = (cs, Inl (Mcp e)) \<Longrightarrow> code e = InternalError"
  by (auto simp: read_file_def Let_def split: option.splits sum.splits)

lemma search_code_tool_error:
  "search_code_tool R gh a \<noteq> (cs, Inl (Mcp e))"
  by (auto simp: search_code_tool_def Let_def split: option.splits sum.splits)

lemma list_repository_content_error:
  "list_repository_content R gh a = (cs, Inl (Mcp e)) \<Longrightarrow> code e = InternalError"
  by (auto simp: list_repository_content_def Let_def
      split: option.splits sum.splits content_data.splits)

lemma github_try_error:
  "github_try R gh req = (cs, Inl (Mcp e)) \<Longrightarrow> code e \<noteq> InvalidParams"
  by (auto simp: github_try_def search_code_tool_error
      dest: read_file_error list_repository_content_error split: if_splits)

lemma github_never_InvalidParams:
  "snd (github_CallTool R gh req) = Inl e \<Longrightarrow> code e \<noteq> InvalidParams"
proof -
  assume a: "snd (github_CallTool R gh req) = Inl e"
  obtain cs r where t: "github_try R gh req = (cs, r)" by (cases "github_try R gh req")
  show ?thesis
  proof (cases r)
    case (Inl x)
    show ?thesis
    proof (cases x)
      case (Mcp e')
      with a t Inl have "e = e'" by (simp add: github_CallTool_def)
      with github_try_error [of R gh req cs e'] t Inl Mcp show ?thesis by simp
    next
      case (Thrown tv)
      with a t Inl show ?thesis by (auto simp: github_CallTool_def)
    qed
  next
    case (Inr v)
    with a t show ?thesis by (simp add: github_CallTool_def)
  qed
qed

lemma github_calls_with_bag:
  "arguments req = Some ps \<Longrightarrow> name req \<in> set (map tool_name github_tools) \<Longrightarrow>
   length (fst (github_CallTool R gh req)) = 1"
  by (auto simp: github_tools_def github_CallTool_def github_try_def read_file_def
      search_code_tool_def list_repository_content_def Let_def
      split: sum.splits option.splits content_data.splits)

text \<open>What the GitLab adapter does with a missing argument: it fails with
  \<open>InvalidParams\<close> before any call, naming the field when there is an argument bag.\<close>

lemma gitlab_required_arguments:
  "(arguments req = None \<longrightarrow>
      gitlab_CallTool R gl req =
        ([], Inl \<lparr>code = InvalidParams, message = ''No arguments provided''\<rparr>))
 \<and> (name req = ''get_merge_request_content'' \<and> arguments req = Some ps
      \<and> map_of ps ''project_id'' = None \<longrightarrow>
      gitlab_CallTool R gl req =
        ([], Inl \<lparr>code = InvalidParams, message = ''project_id must be a string''\<rparr>))
 \<and> (name req = ''get_merge_request_content'' \<and> arguments req = Some ps
      \<and> map_of ps ''project_id'' = Some (JStr p) \<and> map_of ps ''merge_request_iid'' = None \<longrightarrow>
      gitlab_CallTool R gl req =
        ([], Inl \<lparr>code = InvalidParams, message = ''merge_request_iid must be a number''\<rparr>))"
  by (simp add: gitlab_CallTool_def gitlab_try_def get_merge_request_content_def
      validateGetMergeRequestContentArgs_def get_prop_def)

text \<open>What the GitHub adapter does: it never fails with \<open>InvalidParams\<close>, and a request
  for one of its tools that has an argument bag always issues its one call.\<close>

lemma github_checks_nothing:
  "(\<forall>e. snd (github_CallTool R gh req) = Inl e \<longrightarrow> code e \<noteq> InvalidParams)
 \<and> (name req \<in> set (map tool_name github_tools) \<and> arguments req = Some ps \<longrightarrow>
      length (fst (github_CallTool R gh req)) = 1)"
  using github_never_InvalidParams [of R gh req] github_calls_with_bag [of req ps R gh]
  by simp

text \<open>What the search adapter does: its test for an empty query comes after
  \<^verbatim>\<open>String(...)\<close>, so it rejects a query that converts to the empty string and nothing
  else.\<close>

lemma search_query_check:
  "name req = ''search'' \<Longrightarrow>
   (search_CallTool R key http req =
      ([], Inl \<lparr>code = InvalidParams, message = ''Search query is required''\<rparr>))
   = (to_String R (optional_arg req ''query'') = [])"
  by (auto simp: search_CallTool_def Let_def split: sum.splits)

text \<open>
  Claim C2 does not hold of the code. The \<^verbatim>\<open>search\<close> tool declares \<^verbatim>\<open>query\<close>
  required and the handler means to reject a missing one, but a missing query converts to
  the string \<^verbatim>\<open>undefined\<close>, which is not empty: the request goes to the backing
  service with that query. The \<^verbatim>\<open>read_file\<close> tool declares \<^verbatim>\<open>owner\<close> required, and a
  request without it goes to the backing service with \<^verbatim>\<open>owner\<close> undefined; the failure
  of that call comes back as \<open>InternalError\<close>.
\<close>

theorem missing_required_argument_reaches_backend:
  "''query'' \<in> set (required (hd search_tools)) \<and>
   search_CallTool example_runtime ''key'' brave_no_results
      \<lparr>name = ''search'', arguments = Some []\<rparr>
     = ([\<lparr>get_url = ''https://api.search.brave.com/res/v1/web/search'',
          X_Subscription_Token = ''key'', q = ''undefined'', count = Fin 5,
          text_decorations = False, text_format = ''plain''\<rparr>],
        Inr \<lparr>content = [\<lparr>type = ''text'', text = ''No results found.''\<rparr>]\<rparr>) \<and>
   ''owner'' \<in> set (required (hd github_tools)) \<and>
   github_CallTool example_runtime octokit_not_found
      \<lparr>name = ''read_file'',
       arguments = Some [(''repo'', JStr ''mcp''), (''path'', JStr ''README.md'')]\<rparr>
     = ([GetContent JUndefined (JStr ''mcp'') (JStr ''README.md'') (JStr ''main'')],
        Inl \<lparr>code = InternalError, message = ''GitHub API error: Not Found''\<rparr>)"
  by (simp add: search_tools_def search_CallTool_def optional_arg_def get_prop_def num_or_def
      brave_no_results_def search_try_def search_reshape_def web_results_def nullish_def
      BRAVE_SEARCH_URL_def github_tools_def github_CallTool_def github_try_def read_file_def
      octokit_not_found_def with_default_def)

section \<open>Errors raised during an invocation\<close>












section \<open>Credentials at process start\<close>

text \<open>
  Claim C4, as amended. The search adapter needs \<^verbatim>\<open>BRAVE_API_KEY\<close> and the GitLab adapter
  needs \<^verbatim>\<open>GITLAB_TOKEN\<close>: when the variable is unset or empty the program stops with an
  error before the transport is connected, and when it is set the program connects,
  whatever else the environment holds. The GitHub adapter needs no variable: it connects
  in every environment.
\<close>

theorem credential_at_startup:
  "(env_falsy (env ''BRAVE_API_KEY'') \<longrightarrow>
      search_startup env = Crashed ''BRAVE_API_KEY environment variable is required'')
 \<and> (env ''BRAVE_API_KEY'' = Some k \<and> k \<noteq> [] \<longrightarrow> search_startup env = Connected k)
 \<and> (env_falsy (env ''GITLAB_TOKEN'') \<longrightarrow>
      gitlab_startup env = Crashed ''GITLAB_TOKEN environment variable is required'')
 \<and> (env ''GITLAB_TOKEN'' = Some g \<and> g \<noteq> [] \<longrightarrow>
      (\<exists>u. gitlab_startup env = Connected (g, u)))
 \<and> github_startup env = Connected ()"
  by (simp add: search_startup_def gitlab_startup_def github_startup_def env_falsy_def Let_def)

theorem credential_at_startup_witness:
  "env_falsy (env_empty ''BRAVE_API_KEY'') \<and>
   search_startup env_empty = Crashed ''BRAVE_API_KEY environment variable is required'' \<and>
   env_falsy (env_empty ''GITLAB_TOKEN'') \<and>
   gitlab_startup env_empty = Crashed ''GITLAB_TOKEN environment variable is required'' \<and>
   env_with_keys ''BRAVE_API_KEY'' = Some ''bsa-key'' \<and>
   search_startup env_with_keys = Connected ''bsa-key'' \<and>
   env_with_keys ''GITLAB_TOKEN'' = Some ''glpat-token'' \<and>
   gitlab_startup env_with_keys = Connected (''glpat-token'', ''https://gitlab.com'') \<and>
   github_startup env_with_keys = Connected ()"
  using credential_at_startup [of env_empty "[]" "[]"]
    credential_at_startup [of env_with_keys "''bsa-key''" "''glpat-token''"]
  by (simp add: env_empty_def env_with_keys_def env_falsy_def gitlab_startup_def)

text \<open>The claim as first stated fails on the GitHub adapter, which starts with an empty
  environment.\<close>

theorem github_starts_without_credential:
  "github_startup env_empty = Connected ()"
  by (simp add: github_startup_def)

section \<open>The text returned by the web search\<close>

lemma search_results_map_objects:
  "\<forall>r\<in>set rs. \<not> nullish r \<Longrightarrow> search_results_map R rs = Inr (map search_result_json rs)"
  by (induction rs) simp_all

lemma web_results_array:
  "web_results data = JArr rs \<Longrightarrow> \<not> nullish data"
  by (cases data) (simp_all add: web_results_def nullish_def)

text \<open>
  Claim C5. For a request to the \<^verbatim>\<open>search\<close> tool with a query whose backing call
  answers: when the answer holds no result (its \<^verbatim>\<open>web.results\<close> is an empty array, or
  is absent), the returned text is exactly \<^verbatim>\<open>No results found.\<close>; when it holds \<open>N\<close>
  results, none of them \<^verbatim>\<open>null\<close>, the text is the JSON serialisation of an array of
  \<open>N\<close> objects, one per result and in the same order, each made of the result's
  \<^verbatim>\<open>title\<close>, \<^verbatim>\<open>url\<close> and \<^verbatim>\<open>description\<close> as they came.
\<close>

theorem search_text:
  assumes "name req = ''search''"
    and "to_String R (optional_arg req ''query'') \<noteq> []"
    and "http \<lparr>get_url = BRAVE_SEARCH_URL, X_Subscription_Token = key,
           q = to_String R (optional_arg req ''query''),
           count = num_or (to_Number R (optional_arg req ''count'')) (Fin 5),
           text_decorations = False, text_format = ''plain''\<rparr> = Inr data"
  shows "(web_results data = JArr rs \<and> (\<forall>r\<in>set rs. \<not> nullish r) \<longrightarrow>
      snd (search_CallTool R key http req) =
        Inr \<lparr>content = [\<lparr>type = ''text'',
          text = (if rs = [] then ''No results found.''
                  else JSON_stringify R (JArr (map
                    (\<lambda>r. JObj [(''title'', js_member r ''title''),
                               (''url'', js_member r ''url''),
                               (''description'', js_member r ''description'')])
                    rs)))\<rparr>]\<rparr>)
    \<and> (\<not> nullish data \<and> \<not> truthy (js_length (web_results data)) \<longrightarrow>
      snd (search_CallTool R key http req) =
        Inr \<lparr>content = [\<lparr>type = ''text'', text = ''No results found.''\<rparr>]\<rparr>)
    \<and> length (map search_result_json rs) = length rs"
proof -
  have call: "snd (search_CallTool R key http req)
      = (case search_reshape R data of Inl e \<Rightarrow> Inl (search_catch e) | Inr r \<Rightarrow> Inr r)"
    using assms by (simp add: search_CallTool_def search_try_def Let_def split: sum.splits)
  have arr: "search_reshape R data =
      Inr \<lparr>content = [\<lparr>type = ''text'',
          text = (if rs = [] then ''No results found.''
                  else JSON_stringify R (JArr (map search_result_json rs)))\<rparr>]\<rparr>"
    if "web_results data = JArr rs" and "\<forall>r\<in>set rs. \<not> nullish r"
    using that web_results_array [of data rs] search_results_map_objects [of rs R]
    by (simp add: search_reshape_def)
  have none: "search_reshape R data =
      Inr \<lparr>content = [\<lparr>type = ''text'', text = ''No results found.''\<rparr>]\<rparr>"
    if "\<not> nullish data" and "\<not> truthy (js_length (web_results data))"
    using that by (simp add: search_reshape_def)
  show ?thesis
    using call arr none by (simp add: search_result_json_def [abs_def])
qed

theorem search_text_witness:
  "snd (search_CallTool example_runtime ''key'' brave_no_results
     \<lparr>name = ''search'', arguments = Some [(''query'', JStr ''isabelle'')]\<rparr>)
     = Inr \<lparr>content = [\<lparr>type = ''text'', text = ''No results found.''\<rparr>]\<rparr> \<and>
   snd (search_CallTool example_runtime ''key'' brave_no_web
     \<lparr>name = ''search'', arguments = Some [(''query'', JStr ''isabelle'')]\<rparr>)
     = Inr \<lparr>content = [\<lparr>type = ''text'', text = ''No results found.''\<rparr>]\<rparr> \<and>
   snd (search_CallTool example_runtime ''key'' brave_two_results
     \<lparr>name = ''search'', arguments = Some [(''query'', JStr ''isabelle'')]\<rparr>)
     = Inr \<lparr>content = [\<lparr>type = ''text'',
         text = JSON_stringify example_runtime (JArr
           [JObj [(''title'', JStr ''Isabelle''), (''url'', JStr ''https://isabelle.in.tum.de''),
                  (''description'', JStr ''A proof assistant'')],
            JObj [(''title'', JStr ''HOL''), (''url'', JStr ''https://hol.example''),
                  (''description'', JStr ''Higher-order logic'')]])\<rparr>]\<rparr>"
  using
    search_text [of "\<lparr>name = ''search'', arguments = Some [(''query'', JStr ''isabelle'')]\<rparr>"
      example_runtime brave_no_results "''key''"
      "JObj [(''web'', JObj [(''results'', JArr [])])]" "[]"]
    search_text [of "\<lparr>name = ''search'', arguments = Some [(''query'', JStr ''isabelle'')]\<rparr>"
      example_runtime brave_no_web "''key''" "JObj [(''type'', JStr ''search'')]" "[]"]
    search_text [of "\<lparr>name = ''search'', arguments = Some [(''query'', JStr ''isabelle'')]\<rparr>"
      example_runtime brave_two_results "''key''"
      "JObj [(''type'', JStr ''search''),
       (''web'', JObj [(''results'', JArr
          [JObj [(''title'', JStr ''Isabelle''), (''url'', JStr ''https://isabelle.in.tum.de''),
                 (''description'', JStr ''A proof assistant''), (''language'', JStr ''en'')],
           JObj [(''title'', JStr ''HOL''), (''url'', JStr ''https://hol.example''),
                 (''description'', JStr ''Higher-order logic'')]])])]"
      "[JObj [(''title'', JStr ''Isabelle''), (''url'', JStr ''https://isabelle.in.tum.de''),
                 (''description'', JStr ''A proof assistant''), (''language'', JStr ''en'')],
           JObj [(''title'', JStr ''HOL''), (''url'', JStr ''https://hol.example''),
                 (''description'', JStr ''Higher-order logic'')]]"]
  by (simp add: optional_arg_def get_prop_def brave_no_results_def brave_two_results_def
      brave_no_web_def web_results_def nullish_def)

section \<open>The text returned by \<^verbatim>\<open>read_file\<close>\<close>

lemma base64_example: "base64_to_utf8 example_runtime ''aGVsbG8='' = ''hello''"
proof -
  have "b64_decode ''aGVsbG8='' = ''hello''" by code_simp
  then show ?thesis by (simp add: example_runtime_def)
qed

text \<open>
  Claim C6. For a request to \<^verbatim>\<open>read_file\<close> whose backing call answers: when the answer
  is a single object whose \<^verbatim>\<open>content\<close> is a string, the returned text is the runtime's
  base64-to-UTF-8 decoding of that string; when the answer is anything else, a directory
  listing for one, the call fails with \<open>InternalError\<close>. Either way exactly one backing
  call was made.
\<close>

theorem read_file_decodes:
  assumes "name req = ''read_file''"
    and "arguments req = Some ps"
    and "repos_getContent gh (get_prop ps ''owner'') (get_prop ps ''repo'') (get_prop ps ''path'')
           (with_default (get_prop ps ''ref'') (JStr ''main'')) = Inr d"
  shows "(d = Payload (Some (JStr c)) \<longrightarrow>
            snd (github_CallTool R gh req) =
              Inr \<lparr>content = [\<lparr>type = ''text'', text = base64_to_utf8 R c\<rparr>]\<rparr>)
       \<and> ((\<forall>s. d \<noteq> Payload (Some (JStr s))) \<longrightarrow>
            snd (github_CallTool R gh req) =
              Inl \<lparr>code = InternalError,
                   message = ''Invalid response format from GitHub API''\<rparr>)
       \<and> fst (github_CallTool R gh req) =
            [GetContent (get_prop ps ''owner'') (get_prop ps ''repo'') (get_prop ps ''path'')
               (with_default (get_prop ps ''ref'') (JStr ''main''))]"
proof -
  have sc: "(\<forall>s. d \<noteq> Payload (Some (JStr s))) \<Longrightarrow> string_content d = None"
    by (cases d rule: string_content.cases) auto
  show ?thesis
    using assms sc
    by (auto simp: github_CallTool_def github_try_def read_file_def Let_def
        split: option.splits)
qed

theorem read_file_decodes_witness:
  "snd (github_CallTool example_runtime octokit_file
      \<lparr>name = ''read_file'',
       arguments = Some [(''owner'', JStr ''vupham90''), (''repo'', JStr ''mcp''),
                         (''path'', JStr ''hello.txt'')]\<rparr>)
     = Inr \<lparr>content = [\<lparr>type = ''text'', text = ''hello''\<rparr>]\<rparr> \<and>
   snd (github_CallTool example_runtime octokit_directory
      \<lparr>name = ''read_file'',
       arguments = Some [(''owner'', JStr ''vupham90''), (''repo'', JStr ''mcp''),
                         (''path'', JStr ''src'')]\<rparr>)
     = Inl \<lparr>code = InternalError, message = ''Invalid response format from GitHub API''\<rparr>"
  using
    read_file_decodes [of "\<lparr>name = ''read_file'',
       arguments = Some [(''owner'', JStr ''vupham90''), (''repo'', JStr ''mcp''),
                         (''path'', JStr ''hello.txt'')]\<rparr>"
      "[(''owner'', JStr ''vupham90''), (''repo'', JStr ''mcp''), (''path'', JStr ''hello.txt'')]"
      octokit_file "Payload (Some (JStr ''aGVsbG8=''))" "''aGVsbG8=''" example_runtime]
    read_file_decodes [of "\<lparr>name = ''read_file'',
       arguments = Some [(''owner'', JStr ''vupham90''), (''repo'', JStr ''mcp''),
                         (''path'', JStr ''src'')]\<rparr>"
      "[(''owner'', JStr ''vupham90''), (''repo'', JStr ''mcp''), (''path'', JStr ''src'')]"
      octokit_directory
      "Listing [\<lparr>entry_name = ''README.md'', entry_type = ''file'',
                       entry_path = ''README.md'', entry_size = Fin 120\<rparr>]" _ example_runtime]
    base64_example
  by (simp add: octokit_file_def octokit_directory_def get_prop_def with_default_def)

section \<open>The text returned by \<^verbatim>\<open>get_merge_request_content\<close>\<close>

text \<open>
  Claim C7. For a request to \<^verbatim>\<open>get_merge_request_content\<close> with a string project id
  and a numeric merge request id, when both backing calls answer, the returned text is
  the JSON serialisation of an object with the merge request's \<^verbatim>\<open>id\<close>, \<^verbatim>\<open>iid\<close>,
  \<^verbatim>\<open>title\<close>, \<^verbatim>\<open>description\<close>, \<^verbatim>\<open>state\<close>, \<^verbatim>\<open>source_branch\<close> and
  \<^verbatim>\<open>target_branch\<close>, followed by \<^verbatim>\<open>changes\<close>: an array with one object per backing
  diff, in the same order, made of the diff's \<^verbatim>\<open>old_path\<close>, \<^verbatim>\<open>new_path\<close> and
  \<^verbatim>\<open>diff\<close>.
\<close>

theorem merge_request_content:
  assumes "name req = ''get_merge_request_content''"
    and "arguments req = Some ps"
    and "map_of ps ''project_id'' = Some (JStr p)"
    and "map_of ps ''merge_request_iid'' = Some (JNum n)"
    and "MergeRequests_show gl (JStr p) (JNum n) = Inr mr"
    and "MergeRequests_allDiffs gl (JStr p) (JNum n) = Inr ds"
  shows "gitlab_CallTool R gl req =
    ([Show (JStr p) (JNum n), AllDiffs (JStr p) (JNum n)],
     Inr \<lparr>content = [\<lparr>type = ''text'',
       text = JSON_stringify R (JObj
         [(''id'', mr_id mr), (''iid'', mr_iid mr), (''title'', mr_title mr),
          (''description'', mr_description mr), (''state'', mr_state mr),
          (''source_branch'', mr_source_branch mr), (''target_branch'', mr_target_branch mr),
          (''changes'', JArr (map
             (\<lambda>d. JObj [(''old_path'', old_path d), (''new_path'', new_path d),
                         (''diff'', diff d)]) ds))])\<rparr>]\<rparr>)
    \<and> length (map mr_diff_json ds) = length ds"
  using assms
  by (simp add: gitlab_CallTool_def gitlab_try_def get_merge_request_content_def
      validateGetMergeRequestContentArgs_def get_prop_def mr_content_json_def
      mr_diff_json_def [abs_def] Let_def)

theorem merge_request_content_witness:
  "gitlab_CallTool example_runtime gitlab_one_change
     \<lparr>name = ''get_merge_request_content'',
      arguments = Some [(''project_id'', JStr ''g/p''), (''merge_request_iid'', JNum (Fin 7))]\<rparr>
   = ([Show (JStr ''g/p'') (JNum (Fin 7)), AllDiffs (JStr ''g/p'') (JNum (Fin 7))],
      Inr \<lparr>content = [\<lparr>type = ''text'',
        text = JSON_stringify example_runtime (JObj
          [(''id'', JNum (Fin 9001)), (''iid'', JNum (Fin 7)), (''title'', JStr ''Fix typo''),
           (''description'', JNull), (''state'', JStr ''opened''),
           (''source_branch'', JStr ''typo''), (''target_branch'', JStr ''main''),
           (''changes'', JArr [JObj [(''old_path'', JStr ''README.md''),
              (''new_path'', JStr ''README.md''), (''diff'', JStr ''@@ -1 +1 @@'')]])])\<rparr>]\<rparr>)"
  using merge_request_content [of
      "\<lparr>name = ''get_merge_request_content'',
      arguments = Some [(''project_id'', JStr ''g/p''), (''merge_request_iid'', JNum (Fin 7))]\<rparr>"
      "[(''project_id'', JStr ''g/p''), (''merge_request_iid'', JNum (Fin 7))]"
      "''g/p''" "Fin 7" gitlab_one_change
      "\<lparr>mr_id = JNum (Fin 9001), mr_iid = JNum (Fin 7), mr_title = JStr ''Fix typo'',
             mr_description = JNull, mr_state = JStr ''opened'',
             mr_source_branch = JStr ''typo'', mr_target_branch = JStr ''main''\<rparr>"
      "[\<lparr>old_path = JStr ''README.md'', new_path = JStr ''README.md'',
              diff = JStr ''@@ -1 +1 @@''\<rparr>]" example_runtime]
  by (simp add: gitlab_one_change_def)

section \<open>The query sent by \<^verbatim>\<open>search_code\<close>\<close>

text \<open>
  Claim C8, as amended. For a request to \<^verbatim>\<open>search_code\<close> with a string query, the
  query sent to the code search is the user's query followed by
  \<^verbatim>\<open> language:<language>\<close> when \<^verbatim>\<open>language\<close> is truthy, and then by
  \<^verbatim>\<open> repo:<owner>/<repo>\<close> when \<^verbatim>\<open>owner\<close> and \<^verbatim>\<open>repo\<close> are both truthy, or by
  \<^verbatim>\<open> user:<owner>\<close> when \<^verbatim>\<open>owner\<close> is truthy and \<^verbatim>\<open>repo\<close> is not. An argument
  that is absent or an empty string is not truthy and adds nothing. When the backing call
  answers, the returned text is the JSON serialisation of an array with one object per
  match, made of the repository's full name, the path and the url.
\<close>

theorem search_code_query:
  assumes "name req = ''search_code''"
    and "arguments req = Some ps"
    and "get_prop ps ''query'' = JStr s"
    and "qq = JStr (s
           @ (if truthy (get_prop ps ''language'')
              then '' language:'' @ to_String R (get_prop ps ''language'') else [])
           @ (if truthy (get_prop ps ''owner'') \<and> truthy (get_prop ps ''repo'')
              then '' repo:'' @ to_String R (get_prop ps ''owner'') @ ''/''
                   @ to_String R (get_prop ps ''repo'')
              else if truthy (get_prop ps ''owner'')
              then '' user:'' @ to_String R (get_prop ps ''owner'') else []))"
    and "search_code gh qq 10 = Inr items"
  shows "github_CallTool R gh req =
    ([SearchCode qq 10],
     Inr \<lparr>content = [\<lparr>type = ''text'',
       text = JSON_stringify R (JArr (map
         (\<lambda>item. JObj [(''repository'', JStr (repository_full_name item)),
                        (''path'', JStr (path item)), (''url'', JStr (html_url item))])
         items))\<rparr>]\<rparr>)"
proof -
  have "search_code_q R (get_prop ps ''query'') (get_prop ps ''language'')
          (get_prop ps ''owner'') (get_prop ps ''repo'') = qq"
    using assms(3,4) by (simp add: search_code_q_def Let_def)
  then show ?thesis
    using assms(1,2,5)
    by (simp add: github_CallTool_def github_try_def search_code_tool_def
        code_item_json_def [abs_def] Let_def)
qed

theorem search_code_query_witness:
  "github_CallTool example_runtime octokit_file
     \<lparr>name = ''search_code'',
      arguments = Some [(''query'', JStr ''parser''), (''language'', JStr ''isabelle''),
                        (''owner'', JStr ''octocat''), (''repo'', JStr ''hello'')]\<rparr>
   = ([SearchCode (JStr ''parser language:isabelle repo:octocat/hello'') 10],
      Inr \<lparr>content = [\<lparr>type = ''text'',
        text = JSON_stringify example_runtime (JArr
          [JObj [(''repository'', JStr ''isabelle-prover/mirror-isabelle''),
                 (''path'', JStr ''src/HOL/List.thy''),
                 (''url'', JStr ''https://github.com/isabelle-prover/mirror-isabelle'')]])\<rparr>]\<rparr>) \<and>
   fst (github_CallTool example_runtime octokit_file
     \<lparr>name = ''search_code'',
      arguments = Some [(''query'', JStr ''parser''), (''owner'', JStr ''octocat'')]\<rparr>)
   = [SearchCode (JStr ''parser user:octocat'') 10] \<and>
   fst (github_CallTool example_runtime octokit_file
     \<lparr>name = ''search_code'',
      arguments = Some [(''query'', JStr ''parser''), (''repo'', JStr ''hello'')]\<rparr>)
   = [SearchCode (JStr ''parser'') 10]"
  using
    search_code_query [of "\<lparr>name = ''search_code'',
      arguments = Some [(''query'', JStr ''parser''), (''language'', JStr ''isabelle''),
                        (''owner'', JStr ''octocat''), (''repo'', JStr ''hello'')]\<rparr>"
      "[(''query'', JStr ''parser''), (''language'', JStr ''isabelle''),
                        (''owner'', JStr ''octocat''), (''repo'', JStr ''hello'')]"
      "''parser''" "JStr ''parser language:isabelle repo:octocat/hello''" example_runtime
      octokit_file
      "[\<lparr>repository_full_name = ''isabelle-prover/mirror-isabelle'',
              path = ''src/HOL/List.thy'',
              html_url = ''https://github.com/isabelle-prover/mirror-isabelle''\<rparr>]"]
    search_code_query [of "\<lparr>name = ''search_code'',
      arguments = Some [(''query'', JStr ''parser''), (''owner'', JStr ''octocat'')]\<rparr>"
      "[(''query'', JStr ''parser''), (''owner'', JStr ''octocat'')]"
      "''parser''" "JStr ''parser user:octocat''" example_runtime
      octokit_file
      "[\<lparr>repository_full_name = ''isabelle-prover/mirror-isabelle'',
              path = ''src/HOL/List.thy'',
              html_url = ''https://github.com/isabelle-prover/mirror-isabelle''\<rparr>]"]
    search_code_query [of "\<lparr>name = ''search_code'',
      arguments = Some [(''query'', JStr ''parser''), (''repo'', JStr ''hello'')]\<rparr>"
      "[(''query'', JStr ''parser''), (''repo'', JStr ''hello'')]"
      "''parser''" "JStr ''parser''" example_runtime
      octokit_file
      "[\<lparr>repository_full_name = ''isabelle-prover/mirror-isabelle'',
              path = ''src/HOL/List.thy'',
              html_url = ''https://github.com/isabelle-prover/mirror-isabelle''\<rparr>]"]
  by (simp add: get_prop_def octokit_file_def)

text \<open>The claim as first stated fails when an argument is supplied as the empty string:
  \<^verbatim>\<open>language\<close> is in the argument bag, and no qualifier is appended.\<close>

theorem empty_language_adds_no_qualifier:
  "map_of [(''query'', JStr ''parser''), (''language'', JStr [])] ''language'' = Some (JStr []) \<and>
   fst (github_CallTool example_runtime octokit_file
     \<lparr>name = ''search_code'',
      arguments = Some [(''query'', JStr ''parser''), (''language'', JStr [])]\<rparr>)
   = [SearchCode (JStr ''parser'') 10]"
  by (simp add: github_CallTool_def github_try_def search_code_tool_def search_code_q_def
      get_prop_def octokit_file_def)

section \<open>The result count of the web search\<close>

text \<open>What the handler does with \<^verbatim>\<open>count\<close>: it converts it to a number, replaces
  \<open>NaN\<close> and \<open>0\<close> by \<open>5\<close>, and sends the outcome; a missing count becomes \<open>5\<close> and a
  number other than \<open>0\<close> goes out as it came. No bound is applied.\<close>

lemma search_count_sent:
  "name req = ''search'' \<Longrightarrow> to_String R (optional_arg req ''query'') \<noteq> [] \<Longrightarrow>
   map count (fst (search_CallTool R key http req)) =
     [num_or (to_Number R (optional_arg req ''count'')) (Fin 5)]"
  by (simp add: search_CallTool_def Let_def split: sum.splits)

lemma search_count_cases:
  "num_or (to_Number R JUndefined) (Fin 5) = Fin 5 \<and>
   num_or (to_Number R (JNum (Fin 0))) (Fin 5) = Fin 5 \<and>
   (truthy_num n \<longrightarrow> num_or (to_Number R (JNum n)) (Fin 5) = n)"
  by (simp add: num_or_def)

text \<open>
  Claim C9 does not hold of the code. The schema of the \<^verbatim>\<open>search\<close> tool declares
  \<^verbatim>\<open>count\<close> with a minimum of 1 and a maximum of 20, and the handler sends a count of
  100 to the backing service as it came.
\<close>

theorem count_passed_unchecked:
  "map_of (properties (hd search_tools)) ''count''
     = Some \<lparr>ptype = ''number'', pdescription = ''Number of results to return (1-20)'',
             minimum = Some (Fin 1), maximum = Some (Fin 20),
             pdefault = Some (JNum (Fin 5))\<rparr> \<and>
   fst (search_CallTool example_runtime ''key'' brave_no_results
     \<lparr>name = ''search'',
      arguments = Some [(''query'', JStr ''isabelle''), (''count'', JNum (Fin 100))]\<rparr>)
   = [\<lparr>get_url = ''https://api.search.brave.com/res/v1/web/search'',
       X_Subscription_Token = ''key'', q = ''isabelle'', count = Fin 100,
       text_decorations = False, text_format = ''plain''\<rparr>]"
  by (simp add: search_tools_def search_CallTool_def optional_arg_def get_prop_def num_or_def
      BRAVE_SEARCH_URL_def Let_def fst_case_sum)

section \<open>The shape of every result\<close>

lemma search_reshape_one_text:
  "search_reshape R data = Inr r \<Longrightarrow> \<exists>t. content r = [\<lparr>type = ''text'', text = t\<rparr>]"
  by (auto simp: search_reshape_def split: if_splits jsval.splits sum.splits)

lemma search_one_text:
  "search_CallTool R key http req = (cs, Inr r) \<Longrightarrow>
     \<exists>t. content r = [\<lparr>type = ''text'', text = t\<rparr>]"
  by (auto simp: search_CallTool_def search_try_def Let_def
      dest: search_reshape_one_text split: if_splits sum.splits)

lemma read_file_one_text:
  "read_file R gh a = (cs, Inr r) \<Longrightarrow> \<exists>t. content r = [\<lparr>type = ''text'', text = t\<rparr>]"
  by (auto simp: read_file_def Let_def split: option.splits sum.splits)

lemma search_code_one_text:
  "search_code_tool R gh a = (cs, Inr r) \<Longrightarrow> \<exists>t. content r = [\<lparr>type = ''text'', text = t\<rparr>]"
  by (auto simp: search_code_tool_def Let_def split: option.splits sum.splits)

lemma list_repository_content_one_text:
  "list_repository_content R gh a = (cs, Inr r) \<Longrightarrow>
     \<exists>t. content r = [\<lparr>type = ''text'', text = t\<rparr>]"
  by (auto simp: list_repository_content_def Let_def
      split: option.splits sum.splits content_data.splits)

lemma github_try_one_text:
  "github_try R gh req = (cs, Inr r) \<Longrightarrow> \<exists>t. content r = [\<lparr>type = ''text'', text = t\<rparr>]"
  unfolding github_try_def
  by (auto dest: read_file_one_text search_code_one_text list_repository_content_one_text
      split: if_splits)

lemma github_one_text:
  "github_CallTool R gh req = (cs, Inr r) \<Longrightarrow>
     \<exists>t. content r = [\<lparr>type = ''text'', text = t\<rparr>]"
proof -
  assume a: "github_CallTool R gh req = (cs, Inr r)"
  obtain cs0 r0 where t: "github_try R gh req = (cs0, r0)" by (cases "github_try R gh req")
  with a have "r0 = Inr r" by (cases r0) (auto simp: github_CallTool_def)
  with t github_try_one_text [of R gh req cs0 r] show ?thesis by simp
qed

lemma get_merge_request_content_one_text:
  "get_merge_request_content R gl ps = (cs, Inr r) \<Longrightarrow>
     \<exists>t. content r = [\<lparr>type = ''text'', text = t\<rparr>]"
  by (auto simp: get_merge_request_content_def Let_def split: option.splits sum.splits)

lemma gitlab_one_text:
  "gitlab_CallTool R gl req = (cs, Inr r) \<Longrightarrow>
     \<exists>t. content r = [\<lparr>type = ''text'', text = t\<rparr>]"
proof -
  assume a: "gitlab_CallTool R gl req = (cs, Inr r)"
  then obtain ps where ps: "arguments req = Some ps"
    by (cases "arguments req") (auto simp: gitlab_CallTool_def)
  obtain cs0 r0 where t: "gitlab_try R gl (name req) ps = (cs0, r0)"
    by (cases "gitlab_try R gl (name req) ps")
  with a ps have "r0 = Inr r" by (cases r0) (auto simp: gitlab_CallTool_def)
  with t have "get_merge_request_content R gl ps = (cs0, Inr r)"
    by (auto simp: gitlab_try_def split: if_splits)
  then show ?thesis by (rule get_merge_request_content_one_text)
qed

text \<open>
  Claim C10. Whenever one of the three adapters returns a result, for any tool, any
  request and any behaviour of the backing service, the content of the result is a list
  of exactly one element, and that element has type \<^verbatim>\<open>text\<close>.
\<close>

theorem one_text_element:
  "(search_CallTool R key http req = (cs, Inr r) \<longrightarrow>
      (\<exists>t. content r = [\<lparr>type = ''text'', text = t\<rparr>]))
 \<and> (github_CallTool R gh req = (cs', Inr r') \<longrightarrow>
      (\<exists>t. content r' = [\<lparr>type = ''text'', text = t\<rparr>]))
 \<and> (gitlab_CallTool R gl req = (cs'', Inr r'') \<longrightarrow>
      (\<exists>t. content r'' = [\<lparr>type = ''text'', text = t\<rparr>]))"
  using search_one_text [of R key http req cs r] github_one_text [of R gh req cs' r']
    gitlab_one_text [of R gl req cs'' r'']
  by blast

theorem one_text_element_witness:
  "search_CallTool example_runtime ''key'' brave_no_results
     \<lparr>name = ''search'', arguments = Some [(''query'', JStr ''isabelle'')]\<rparr>
   = ([\<lparr>get_url = ''https://api.search.brave.com/res/v1/web/search'',
        X_Subscription_Token = ''key'', q = ''isabelle'', count = Fin 5,
        text_decorations = False, text_format = ''plain''\<rparr>],
      Inr \<lparr>content = [\<lparr>type = ''text'', text = ''No results found.''\<rparr>]\<rparr>) \<and>
   github_CallTool example_runtime octokit_directory
     \<lparr>name = ''list_repository_content'',
      arguments = Some [(''owner'', JStr ''vupham90''), (''repo'', JStr ''mcp'')]\<rparr>
   = ([GetContent (JStr ''vupham90'') (JStr ''mcp'') (JStr []) (JStr ''main'')],
      Inr \<lparr>content = [\<lparr>type = ''text'',
        text = JSON_stringify example_runtime (JArr
          [JObj [(''name'', JStr ''README.md''), (''type'', JStr ''file''),
                 (''path'', JStr ''README.md''), (''size'', JNum (Fin 120))]])\<rparr>]\<rparr>) \<and>
   gitlab_CallTool example_runtime gitlab_one_change
     \<lparr>name = ''get_merge_request_content'',
      arguments = Some [(''project_id'', JStr ''g/p''), (''merge_request_iid'', JNum (Fin 7))]\<rparr>
   = ([Show (JStr ''g/p'') (JNum (Fin 7)), AllDiffs (JStr ''g/p'') (JNum (Fin 7))],
      Inr \<lparr>content = [\<lparr>type = ''text'',
        text = JSON_stringify example_runtime (JObj
          [(''id'', JNum (Fin 9001)), (''iid'', JNum (Fin 7)), (''title'', JStr ''Fix typo''),
           (''description'', JNull), (''state'', JStr ''opened''),
           (''source_branch'', JStr ''typo''), (''target_branch'', JStr ''main''),
           (''changes'', JArr [JObj [(''old_path'', JStr ''README.md''),
              (''new_path'', JStr ''README.md''), (''diff'', JStr ''@@ -1 +1 @@'')]])])\<rparr>]\<rparr>)"
  using one_text_element [of example_runtime "''key''" brave_no_results
      "\<lparr>name = ''search'', arguments = Some [(''query'', JStr ''isabelle'')]\<rparr>"]
  by (simp add: search_CallTool_def optional_arg_def get_prop_def num_or_def
      brave_no_results_def search_try_def search_reshape_def web_results_def nullish_def
      BRAVE_SEARCH_URL_def
      github_CallTool_def github_try_def list_repository_content_def with_default_def
      octokit_directory_def dir_entry_json_def
      gitlab_CallTool_def gitlab_try_def get_merge_request_content_def
      validateGetMergeRequestContentArgs_def gitlab_one_change_def mr_content_json_def
      mr_diff_json_def Let_def)

end
